theory Spec2Isabelle
  imports Main
begin

section \<open>The checkpointed GitHub crawler\<close>

text \<open>
  The script under verification is the crawler of the repository (the third script of
  the source directory, the one that enriches a list of repository links through the
  GitHub API). It is a straight-line script: an authentication check, the loading of the
  input list, the computation of \<open>start_index\<close> from the state file, the main loop over
  \<open>range(start_index, len(repos_to_crawl))\<close>, and a completion report that may remove the
  state file.

  The script's effects on the outside world (remote calls, \<open>time.sleep\<close>, the append to
  the output file, the overwrite and the removal of the state file) are modelled as a
  trace of events in program order; the contents of the two files at any point of the run
  are obtained by replaying a prefix of the trace on the files found at start-up.
\<close>

subsection \<open>String operations of the reference parser\<close>

text \<open>Python's \<open>s.startswith(p)\<close> and \<open>sub in s\<close> on strings.\<close>

fun startswith :: "string \<Rightarrow> string \<Rightarrow> bool" where
  "startswith s [] = True"
| "startswith [] (p # ps) = False"
| "startswith (c # cs) (p # ps) = (c = p \<and> startswith cs ps)"

fun contains :: "string \<Rightarrow> string \<Rightarrow> bool" where
  "contains sub [] = (sub = [])"
| "contains sub (c # cs) = (startswith (c # cs) sub \<or> contains sub cs)"

text \<open>\<open>s.strip(ch)\<close> for a single character: drop it from both ends.\<close>

definition strip_char :: "char \<Rightarrow> string \<Rightarrow> string" where
  "strip_char ch s = rev (dropWhile (\<lambda>c. c = ch) (rev (dropWhile (\<lambda>c. c = ch) s)))"

text \<open>
  \<open>s.split(sep)\<close> for a single character: every occurrence of the separator cuts, empty
  pieces are kept, and the empty string gives one empty piece.
\<close>

fun split_char :: "char \<Rightarrow> string \<Rightarrow> string list" where
  "split_char sep [] = [[]]"
| "split_char sep (c # cs) =
     (if c = sep then [] # split_char sep cs
      else (case split_char sep cs of
              p # ps \<Rightarrow> (c # p) # ps
            | [] \<Rightarrow> [[c]]))"

subsection \<open>Reference resolution (lines 77 to 87)\<close>

text \<open>
  The two \<open>continue\<close> branches of the loop body, named after the two failure kinds of the
  specification. On success the owner is \<open>parts[-2]\<close> and the name is \<open>parts[-1]\<close>.
\<close>

datatype resolve_error = UnsupportedReferenceKind | MalformedReference

definition resolve :: "string \<Rightarrow> resolve_error + string \<times> string" where
  "resolve repo_url =
     (if \<not> contains ''github.com'' repo_url then Inl UnsupportedReferenceKind
      else
        let parts = split_char CHR ''/'' (strip_char CHR ''/'' repo_url) in
        if length parts < 2 then Inl MalformedReference
        else Inr (parts ! (length parts - 2), parts ! (length parts - 1)))"



subsection \<open>Data\<close>

text \<open>
  One parsed line of the input list. The script reads two keys of it, the sequence number
  (an integer, here \<open>wi_id\<close>) and the repository link (a string, here \<open>wi_url\<close>); the
  input format requires both, and other keys are never read.
\<close>

record work_item =
  wi_id :: int
  wi_url :: string

text \<open>
  What the GitHub client returns. A call either raises or returns; the two handlers of
  the script tell a \<open>GithubException\<close> (with its \<open>status\<close> and the optional
  \<open>message\<close> entry of its \<open>data\<close>) from any other exception (with its text).
  The timestamps of a repository are already in ISO format when present.
\<close>

datatype api_error =
    GithubException int "string option"
  | OtherException string

record repository =
  repo_stargazers_count :: int
  repo_forks_count :: int
  repo_open_issues_count :: int
  repo_created_at :: "string option"
  repo_pushed_at :: "string option"

record github_api =
  get_repo :: "string \<Rightarrow> api_error + repository"
  get_contributors :: "string \<Rightarrow> api_error + (string \<times> int) list"
  get_commits_since :: "string \<Rightarrow> api_error + int"
  get_commits :: "string \<Rightarrow> api_error + int"

text \<open>The dictionary \<open>result_data\<close> of lines 90 to 104, one field per key.\<close>

record result_data =
  rd_id :: int
  rd_url :: string
  owner :: string
  repo_name :: string
  stargazers_count :: "int option"
  forks_count :: "int option"
  open_issues_count :: "int option"
  created_at :: "string option"
  pushed_at :: "string option"
  contributor_list :: "(string \<times> int) list"
  recent_commits_count :: "int option"
  total_commits_count :: "int option"
  error :: "string option"

definition new_result_data :: "int \<Rightarrow> string \<Rightarrow> string \<Rightarrow> string \<Rightarrow> result_data" where
  "new_result_data rid repo_url owner_name name =
     \<lparr> rd_id = rid, rd_url = repo_url, owner = owner_name, repo_name = name,
       stargazers_count = None, forks_count = None, open_issues_count = None,
       created_at = None, pushed_at = None, contributor_list = [],
       recent_commits_count = None, total_commits_count = None, error = None \<rparr>"

subsection \<open>Error messages (lines 138 to 145)\<close>

text \<open>Decimal rendering of an integer, as an f-string does it.\<close>

fun str_nat :: "nat \<Rightarrow> string" where
  "str_nat n =
     (if n < 10 then [''0123456789'' ! n]
      else str_nat (n div 10) @ [''0123456789'' ! (n mod 10)])"

declare str_nat.simps [simp del]

definition str_int :: "int \<Rightarrow> string" where
  "str_int k = (if k < 0 then CHR ''-'' # str_nat (nat (- k)) else str_nat (nat k))"

text \<open>
  The two prefixes are Chinese text in the source; they are kept as their UTF-8 bytes.
  The first reads "GitHub API error: ", the second "unknown error: ".
\<close>

definition api_error_prefix :: string where
  "api_error_prefix =
     ''GitHub API '' @ [CHR 0xE9, CHR 0x94, CHR 0x99, CHR 0xE8, CHR 0xAF, CHR 0xAF] @ '': ''"

definition unknown_error_prefix :: string where
  "unknown_error_prefix =
     [CHR 0xE6, CHR 0x9C, CHR 0xAA, CHR 0xE7, CHR 0x9F, CHR 0xA5,
      CHR 0xE9, CHR 0x94, CHR 0x99, CHR 0xE8, CHR 0xAF, CHR 0xAF] @ '': ''"

definition error_msg :: "api_error \<Rightarrow> string" where
  "error_msg e =
     (case e of
        GithubException status message \<Rightarrow>
          api_error_prefix @ str_int status @ '' - '' @
          (case message of None \<Rightarrow> ''No message'' | Some m \<Rightarrow> m)
      | OtherException txt \<Rightarrow> unknown_error_prefix @ txt)"

subsection \<open>Events and files\<close>

datatype api_step = GetRepo | GetContributors | GetRecentCommits | GetTotalCommits

text \<open>
  \<open>Visit i\<close> marks the start of the loop body for index \<open>i\<close> (line 70). The other events
  are the remote calls of the try block with the full name they are made for, the pacing
  \<open>time.sleep(1)\<close>, the append of one line to the output file, the overwrite of the state
  file with an id, and \<open>os.remove\<close> of the state file.
\<close>

datatype event =
    Visit nat
  | RemoteCall api_step string
  | Sleep
  | AppendOutput result_data
  | WriteState int
  | RemoveState

text \<open>
  The state file is absent, or holds text that \<open>int(f.read().strip())\<close> rejects, or
  holds an integer.
\<close>

datatype state_file = Absent | Corrupt | Holds int

record files =
  output_file :: "result_data list"
  state_file :: state_file

fun effect :: "event \<Rightarrow> files \<Rightarrow> files" where
  "effect (AppendOutput rd) fs = fs\<lparr>output_file := output_file fs @ [rd]\<rparr>"
| "effect (WriteState n) fs = fs\<lparr>state_file := Holds n\<rparr>"
| "effect RemoveState fs = fs\<lparr>state_file := Absent\<rparr>"
| "effect (Visit i) fs = fs"
| "effect (RemoteCall c t) fs = fs"
| "effect Sleep fs = fs"

definition replay :: "event list \<Rightarrow> files \<Rightarrow> files" where
  "replay evs fs = fold effect evs fs"

subsection \<open>The try block and its handlers (lines 106 to 145)\<close>

text \<open>
  Each step assigns its fields only after its call has returned; an exception leaves the
  try block at once, and the handler stores the message under \<open>error\<close>. The result is
  the events of the block and the dictionary as it stands after the handlers.
\<close>

definition crawl_repo :: "github_api \<Rightarrow> string \<Rightarrow> result_data \<Rightarrow> event list \<times> result_data" where
  "crawl_repo g full rd =
     (case get_repo g full of
        Inl e \<Rightarrow> ([RemoteCall GetRepo full], rd\<lparr>error := Some (error_msg e)\<rparr>)
      | Inr repo \<Rightarrow>
          let rd1 = rd\<lparr>stargazers_count := Some (repo_stargazers_count repo),
                       forks_count := Some (repo_forks_count repo),
                       open_issues_count := Some (repo_open_issues_count repo),
                       created_at := repo_created_at repo,
                       pushed_at := repo_pushed_at repo\<rparr>;
              ev1 = [RemoteCall GetRepo full, Sleep]
          in
          (case get_contributors g full of
             Inl e \<Rightarrow> (ev1 @ [RemoteCall GetContributors full], rd1\<lparr>error := Some (error_msg e)\<rparr>)
           | Inr contributors \<Rightarrow>
               let rd2 = rd1\<lparr>contributor_list := contributors\<rparr>;
                   ev2 = ev1 @ [RemoteCall GetContributors full, Sleep]
               in
               (case get_commits_since g full of
                  Inl e \<Rightarrow>
                    (ev2 @ [RemoteCall GetRecentCommits full], rd2\<lparr>error := Some (error_msg e)\<rparr>)
                | Inr recent_count \<Rightarrow>
                    let rd3 = rd2\<lparr>recent_commits_count := Some recent_count\<rparr>;
                        ev3 = ev2 @ [RemoteCall GetRecentCommits full, Sleep]
                    in
                    (case get_commits g full of
                       Inl e \<Rightarrow>
                         (ev3 @ [RemoteCall GetTotalCommits full],
                          rd3\<lparr>error := Some (error_msg e)\<rparr>)
                     | Inr total_count \<Rightarrow>
                         (ev3 @ [RemoteCall GetTotalCommits full, Sleep],
                          rd3\<lparr>total_commits_count := Some total_count\<rparr>)))))"

subsection \<open>The loop body (lines 70 to 158)\<close>

text \<open>
  The variables that outlive an iteration: the counter, the id of the item last visited
  (unbound, here \<open>None\<close>, until the body has run once) and the trace so far.
\<close>

record loop_state =
  processed_count :: nat
  repo_id :: "int option"
  trace :: "event list"

definition loop_body :: "github_api \<Rightarrow> work_item list \<Rightarrow> nat \<Rightarrow> loop_state \<Rightarrow> loop_state" where
  "loop_body g repos_to_crawl i s =
     (let repo_info = repos_to_crawl ! i;
          rid = wi_id repo_info;
          repo_url = wi_url repo_info;
          s1 = s\<lparr>repo_id := Some rid, trace := trace s @ [Visit i]\<rparr>
      in
      case resolve repo_url of
        Inl why \<Rightarrow> s1
      | Inr (owner_name, name) \<Rightarrow>
          let (evs, result) =
                crawl_repo g (owner_name @ ''/'' @ name)
                  (new_result_data rid repo_url owner_name name)
          in s1\<lparr>processed_count := processed_count s1 + 1,
                 trace := trace s1 @ evs @ [AppendOutput result, WriteState rid]\<rparr>)"

definition main_loop :: "github_api \<Rightarrow> work_item list \<Rightarrow> nat \<Rightarrow> loop_state" where
  "main_loop g repos_to_crawl start_index =
     fold (loop_body g repos_to_crawl) [start_index..<length repos_to_crawl]
       \<lparr>processed_count = 0, repo_id = None, trace = []\<rparr>"

subsection \<open>Loading and resuming (lines 35 to 63)\<close>

text \<open>
  The input file is missing (\<open>FileNotFoundError\<close>, the one exception the script catches
  around the load), or cannot be opened or decoded (any other exception, which nothing
  catches), or gives its lines. The JSON parser is a parameter: it stands for
  \<open>json.loads(line.strip())\<close> and answers \<open>None\<close> where that raises \<open>JSONDecodeError\<close>.
  Besides the list, the load returns the lines it warned about.
\<close>

datatype input_file = Missing | Unreadable | Lines "string list"

fun load_lines ::
  "(string \<Rightarrow> work_item option) \<Rightarrow> string list \<Rightarrow> work_item list \<times> string list \<Rightarrow>
   work_item list \<times> string list" where
  "load_lines json_loads [] acc = acc"
| "load_lines json_loads (line # rest) (repos_to_crawl, warned) =
     (case json_loads line of
        Some data \<Rightarrow> load_lines json_loads rest (repos_to_crawl @ [data], warned)
      | None \<Rightarrow> load_lines json_loads rest (repos_to_crawl, warned @ [line]))"

text \<open>How the process ends: it runs off the end of the script, or calls \<open>sys.exit()\<close>,
  or dies of an exception that nothing catches.\<close>

datatype outcome = Completed | SysExit | Uncaught string

fun exit_status :: "outcome \<Rightarrow> nat" where
  "exit_status Completed = 0"
| "exit_status SysExit = 0"
| "exit_status (Uncaught exn) = 1"

definition load_repos ::
  "(string \<Rightarrow> work_item option) \<Rightarrow> input_file \<Rightarrow> outcome + work_item list \<times> string list" where
  "load_repos json_loads inp =
     (case inp of
        Missing \<Rightarrow> Inl SysExit
      | Unreadable \<Rightarrow> Inl (Uncaught ''OSError'')
      | Lines ls \<Rightarrow> Inr (load_lines json_loads ls ([], [])))"

text \<open>The scan of lines 55 to 58: the first match sets \<open>start_index\<close> and breaks.\<close>

fun resume_scan :: "int \<Rightarrow> work_item list \<Rightarrow> nat \<Rightarrow> nat" where
  "resume_scan last_id [] i = 0"
| "resume_scan last_id (repo_info # rest) i =
     (if wi_id repo_info = last_id then i + 1 else resume_scan last_id rest (i + 1))"

definition start_index_of :: "state_file \<Rightarrow> work_item list \<Rightarrow> nat" where
  "start_index_of sf repos_to_crawl =
     (case sf of
        Absent \<Rightarrow> 0
      | Corrupt \<Rightarrow> 0
      | Holds last_id \<Rightarrow> resume_scan last_id repos_to_crawl 0)"

subsection \<open>The whole script\<close>

record environment =
  auth_ok :: bool
  input :: input_file
  json_loads :: "string \<Rightarrow> work_item option"
  github :: github_api

text \<open>
  The run from start-up to the end of the process, given the state file found at
  start-up: how the process ends, and the trace. The completion report (lines 162 to
  170) reads \<open>repo_id\<close> at line 165, which is unbound when the body never ran, and
  \<open>os.remove\<close> raises when the state file is not there.
\<close>

definition completion :: "state_file \<Rightarrow> nat \<Rightarrow> nat \<Rightarrow> loop_state \<Rightarrow> outcome \<times> event list" where
  "completion sf n start_index s =
     (case repo_id s of
        None \<Rightarrow> (Uncaught ''NameError'', trace s)
      | Some last_repo_id \<Rightarrow>
          (if start_index + processed_count s \<ge> n then
             (if state_file (replay (trace s) \<lparr>output_file = [], state_file = sf\<rparr>) = Absent
              then (Uncaught ''FileNotFoundError'', trace s)
              else (Completed, trace s @ [RemoveState]))
           else (Completed, trace s)))"

definition run :: "environment \<Rightarrow> state_file \<Rightarrow> outcome \<times> event list" where
  "run env sf =
     (if \<not> auth_ok env then (SysExit, [])
      else
        (case load_repos (json_loads env) (input env) of
           Inl stop \<Rightarrow> (stop, [])
         | Inr (repos_to_crawl, warned) \<Rightarrow>
             (let start_index = start_index_of sf repos_to_crawl
              in completion sf (length repos_to_crawl) start_index
                   (main_loop (github env) repos_to_crawl start_index))))"

text \<open>The files after the run has got through the first \<open>n\<close> events of its trace.\<close>

definition files_at :: "environment \<Rightarrow> files \<Rightarrow> nat \<Rightarrow> files" where
  "files_at env fs n = replay (take n (snd (run env (state_file fs)))) fs"

definition files_after :: "environment \<Rightarrow> files \<Rightarrow> files" where
  "files_after env fs = replay (snd (run env (state_file fs))) fs"

subsection \<open>Reading a trace\<close>

text \<open>
  The events one iteration adds to the trace, and the indices a trace visits. An item is
  resolvable when neither \<open>continue\<close> branch is taken for its link.
\<close>

definition item_events :: "github_api \<Rightarrow> work_item list \<Rightarrow> nat \<Rightarrow> event list" where
  "item_events g repos_to_crawl i =
     trace (loop_body g repos_to_crawl i \<lparr>processed_count = 0, repo_id = None, trace = []\<rparr>)"

fun visits :: "event list \<Rightarrow> nat list" where
  "visits [] = []"
| "visits (Visit i # evs) = i # visits evs"
| "visits (e # evs) = visits evs"

definition resolvable :: "work_item \<Rightarrow> bool" where
  "resolvable repo_info = (case resolve (wi_url repo_info) of Inl why \<Rightarrow> False | Inr target \<Rightarrow> True)"

text \<open>The four calls of the try block in the order of the source, each followed by its
  pause.\<close>

definition fetch_sequence :: "string \<Rightarrow> event list" where
  "fetch_sequence full =
     [RemoteCall GetRepo full, Sleep,
      RemoteCall GetContributors full, Sleep,
      RemoteCall GetRecentCommits full, Sleep,
      RemoteCall GetTotalCommits full, Sleep]"


text \<open>The records a trace appends, in order.\<close>

fun appended :: "event list \<Rightarrow> result_data list" where
  "appended [] = []"
| "appended (AppendOutput rd # evs) = rd # appended evs"
| "appended (e # evs) = appended evs"

text \<open>Events that touch neither file and are not the start of an iteration.\<close>

definition quiet :: "event \<Rightarrow> bool" where
  "quiet e = (case e of RemoteCall c t \<Rightarrow> True | Sleep \<Rightarrow> True | _ \<Rightarrow> False)"



subsection \<open>Sample inputs\<close>

text \<open>
  A repository the sample API knows, an API where every call succeeds for it and the
  first call fails with a 404 for any other name, and an API whose contributor call
  times out. The sample parser knows three lines: a good link with id 1, a string that
  is no link with id 2, and a link to an unknown repository with id 3.
\<close>

definition widget :: repository where
  "widget = \<lparr> repo_stargazers_count = 5, repo_forks_count = 2, repo_open_issues_count = 1,
              repo_created_at = Some ''2020-01-01T00:00:00+00:00'', repo_pushed_at = None \<rparr>"

definition demo_github :: github_api where
  "demo_github =
     \<lparr> get_repo = (\<lambda>full. if full = ''acme/widget'' then Inr widget
                           else Inl (GithubException 404 (Some ''Not Found''))),
       get_contributors = (\<lambda>full. Inr [(''alice'', 10), (''bob'', 3)]),
       get_commits_since = (\<lambda>full. Inr 4),
       get_commits = (\<lambda>full. Inr 120) \<rparr>"

definition flaky_github :: github_api where
  "flaky_github = demo_github\<lparr>get_contributors := (\<lambda>full. Inl (OtherException ''timed out''))\<rparr>"

definition demo_json_loads :: "string \<Rightarrow> work_item option" where
  "demo_json_loads =
     map_of
       [(''line 1'', \<lparr>wi_id = 1, wi_url = ''https://github.com/acme/widget''\<rparr>),
        (''line 2'', \<lparr>wi_id = 2, wi_url = ''not-a-url''\<rparr>),
        (''line 3'', \<lparr>wi_id = 3, wi_url = ''https://github.com/acme/gadget''\<rparr>)]"

definition demo_env :: "string list \<Rightarrow> environment" where
  "demo_env ls =
     \<lparr> auth_ok = True, input = Lines ls, json_loads = demo_json_loads, github = demo_github \<rparr>"

definition no_files :: files where
  "no_files = \<lparr> output_file = [], state_file = Absent \<rparr>"

section \<open>Properties\<close>

subsection \<open>The reference parser\<close>









subsection \<open>The loop and its trace\<close>

text \<open>
  The try block: its events are a non-empty initial part of the fixed sequence, they touch
  neither file, and the id of the dictionary is not changed.
\<close>

lemma crawl_repo_prefix:
  "\<exists>n. 0 < n \<and> n \<le> 8 \<and> fst (crawl_repo g full rd) = take n (fetch_sequence full)"
proof (cases "get_repo g full")
  case (Inl e)
  then have "fst (crawl_repo g full rd) = take 1 (fetch_sequence full)"
    by (simp add: crawl_repo_def fetch_sequence_def)
  then show ?thesis by (intro exI[of _ 1]) simp
next
  case r1: (Inr repo)
  show ?thesis
  proof (cases "get_contributors g full")
    case (Inl e)
    then have "fst (crawl_repo g full rd) = take 3 (fetch_sequence full)"
      using r1 by (simp add: crawl_repo_def fetch_sequence_def Let_def)
    then show ?thesis by (intro exI[of _ 3]) simp
  next
    case r2: (Inr contributors)
    show ?thesis
    proof (cases "get_commits_since g full")
      case (Inl e)
      then have "fst (crawl_repo g full rd) = take 5 (fetch_sequence full)"
        using r1 r2 by (simp add: crawl_repo_def fetch_sequence_def Let_def)
      then show ?thesis by (intro exI[of _ 5]) simp
    next
      case r3: (Inr recent_count)
      show ?thesis
      proof (cases "get_commits g full")
        case (Inl e)
        then have "fst (crawl_repo g full rd) = take 7 (fetch_sequence full)"
          using r1 r2 r3 by (simp add: crawl_repo_def fetch_sequence_def Let_def)
        then show ?thesis by (intro exI[of _ 7]) simp
      next
        case (Inr total_count)
        then have "fst (crawl_repo g full rd) = take 8 (fetch_sequence full)"
          using r1 r2 r3 by (simp add: crawl_repo_def fetch_sequence_def Let_def)
        then show ?thesis by (intro exI[of _ 8]) simp
      qed
    qed
  qed
qed

lemma crawl_repo_quiet: "e \<in> set (fst (crawl_repo g full rd)) \<Longrightarrow> quiet e"
proof -
  assume e: "e \<in> set (fst (crawl_repo g full rd))"
  obtain n where "fst (crawl_repo g full rd) = take n (fetch_sequence full)"
    using crawl_repo_prefix by blast
  then have "e \<in> set (fetch_sequence full)" using e by (auto dest: in_set_takeD)
  then show ?thesis by (auto simp: fetch_sequence_def quiet_def)
qed


text \<open>
  One iteration adds its own events to the trace, counts the item when it resolves, and
  binds \<open>repo_id\<close>; the loop adds the events of its iterations in order.
\<close>

lemma item_events_eq:
  "item_events g repos i =
     Visit i #
       (case resolve (wi_url (repos ! i)) of
          Inl why \<Rightarrow> []
        | Inr target \<Rightarrow>
            (let c = crawl_repo g (fst target @ ''/'' @ snd target)
                       (new_result_data (wi_id (repos ! i)) (wi_url (repos ! i)) (fst target) (snd target))
             in fst c @ [AppendOutput (snd c), WriteState (wi_id (repos ! i))]))"
  by (simp add: item_events_def loop_body_def Let_def split: sum.splits prod.splits)

lemma loop_body_trace: "trace (loop_body g repos i s) = trace s @ item_events g repos i"
  by (simp add: item_events_def loop_body_def Let_def split: sum.splits prod.splits)

lemma loop_body_count:
  "processed_count (loop_body g repos i s) =
     processed_count s + (if resolvable (repos ! i) then 1 else 0)"
  by (simp add: loop_body_def resolvable_def Let_def split: sum.splits prod.splits)

lemma loop_body_repo_id: "repo_id (loop_body g repos i s) = Some (wi_id (repos ! i))"
  by (simp add: loop_body_def Let_def split: sum.splits prod.splits)

lemma fold_trace:
  "trace (fold (loop_body g repos) idxs s) = trace s @ concat (map (item_events g repos) idxs)"
  by (induction idxs arbitrary: s) (simp_all add: loop_body_trace)

lemma fold_count:
  "processed_count (fold (loop_body g repos) idxs s) =
     processed_count s + length (filter (\<lambda>i. resolvable (repos ! i)) idxs)"
  by (induction idxs arbitrary: s) (simp_all add: loop_body_count)

lemma fold_repo_id:
  "repo_id (fold (loop_body g repos) idxs s) =
     (if idxs = [] then repo_id s else Some (wi_id (repos ! last idxs)))"
  by (induction idxs arbitrary: s) (simp_all add: loop_body_repo_id)

lemma main_loop_trace:
  "trace (main_loop g repos start) = concat (map (item_events g repos) [start..<length repos])"
  by (simp add: main_loop_def fold_trace)

lemma main_loop_count:
  "processed_count (main_loop g repos start) =
     length (filter (\<lambda>i. resolvable (repos ! i)) [start..<length repos])"
  by (simp add: main_loop_def fold_count)

lemma main_loop_repo_id:
  "repo_id (main_loop g repos start) =
     (if length repos \<le> start then None else Some (wi_id (last repos)))"
  by (auto simp add: main_loop_def fold_repo_id last_conv_nth)

text \<open>
  Reading the visited indices off a trace.
\<close>

lemma visits_append: "visits (xs @ ys) = visits xs @ visits ys"
  by (induction xs rule: visits.induct) simp_all

lemma visits_quiet: "\<forall>e\<in>set evs. quiet e \<Longrightarrow> visits evs = []"
  by (induction evs rule: visits.induct) (simp_all add: quiet_def)

lemma visits_item_events: "visits (item_events g repos i) = [i]"
  by (simp add: item_events_eq visits_append visits_quiet crawl_repo_quiet Let_def split: sum.splits)

lemma visits_concat_items: "visits (concat (map (item_events g repos) idxs)) = idxs"
  by (induction idxs) (simp_all add: visits_append visits_item_events)

text \<open>
  The load keeps the parsed lines in order; the scan finds the first match.
\<close>

lemma load_lines_eq:
  "load_lines p ls (acc, warned) =
     (acc @ List.map_filter p ls, warned @ filter (\<lambda>l. p l = None) ls)"
  by (induction ls arbitrary: acc warned) (auto split: option.splits)

lemma resume_scan_found:
  "v \<in> wi_id ` set repos \<Longrightarrow>
     \<exists>k<length repos. wi_id (repos ! k) = v \<and> (\<forall>j<k. wi_id (repos ! j) \<noteq> v) \<and>
        resume_scan v repos i = Suc (i + k)"
proof (induction repos arbitrary: i)
  case Nil
  then show ?case by simp
next
  case (Cons r rs)
  show ?case
  proof (cases "wi_id r = v")
    case True
    then show ?thesis by (intro exI[of _ 0]) simp
  next
    case False
    then have "v \<in> wi_id ` set rs" using Cons.prems by auto
    from Cons.IH [OF this, of "Suc i"] obtain k where
      k: "k < length rs" "wi_id (rs ! k) = v" "\<forall>j<k. wi_id (rs ! j) \<noteq> v"
         "resume_scan v rs (Suc i) = Suc (Suc i + k)" by blast
    have "\<forall>j<Suc k. wi_id ((r # rs) ! j) \<noteq> v"
      using k(3) False by (auto simp: nth_Cons split: nat.splits)
    then show ?thesis using k False by (intro exI[of _ "Suc k"]) simp
  qed
qed

lemma resume_scan_missing: "v \<notin> wi_id ` set repos \<Longrightarrow> resume_scan v repos i = 0"
  by (induction repos arbitrary: i) auto

lemma run_loaded:
  "auth_ok env \<Longrightarrow> input env = Lines ls \<Longrightarrow>
   run env sf =
     completion sf (length (List.map_filter (json_loads env) ls))
       (start_index_of sf (List.map_filter (json_loads env) ls))
       (main_loop (github env) (List.map_filter (json_loads env) ls)
          (start_index_of sf (List.map_filter (json_loads env) ls)))"
  by (simp add: run_def load_repos_def load_lines_eq Let_def)

lemma visits_completion: "visits (snd (completion sf n start s)) = visits (trace s)"
  by (simp add: completion_def visits_append split: option.splits)

lemma visits_run:
  "auth_ok env \<Longrightarrow> input env = Lines ls \<Longrightarrow> repos = List.map_filter (json_loads env) ls \<Longrightarrow>
   visits (snd (run env sf)) = [start_index_of sf repos..<length repos]"
  by (simp add: run_loaded visits_completion main_loop_trace visits_concat_items)

text \<open>
  Appended records and error messages.
\<close>

lemma startswith_append: "startswith (p @ s) p"
  by (induction p) simp_all

lemma appended_append: "appended (xs @ ys) = appended xs @ appended ys"
  by (induction xs rule: appended.induct) simp_all

lemma appended_quiet: "\<forall>e\<in>set evs. quiet e \<Longrightarrow> appended evs = []"
  by (induction evs rule: appended.induct) (simp_all add: quiet_def)

lemma error_msg_class:
  "startswith (error_msg e) api_error_prefix = (\<exists>status message. e = GithubException status message)"
  "startswith (error_msg e) unknown_error_prefix = (\<exists>txt. e = OtherException txt)"
  by (cases e; simp add: error_msg_def startswith_append;
      simp add: api_error_prefix_def unknown_error_prefix_def)+

text \<open>
  Replaying the events of an iteration on the files.
\<close>

lemma replay_append: "replay (xs @ ys) fs = replay ys (replay xs fs)"
  by (simp add: replay_def)

lemma replay_quiet: "\<forall>e\<in>set evs. quiet e \<Longrightarrow> replay evs fs = fs"
proof (induction evs)
  case Nil
  then show ?case by (simp add: replay_def)
next
  case (Cons e evs)
  then have "effect e fs = fs" by (cases e) (simp_all add: quiet_def)
  then show ?case using Cons by (simp add: replay_def)
qed

lemma replay_item_events:
  "replay (item_events g repos i) fs =
     (case resolve (wi_url (repos ! i)) of
        Inl why \<Rightarrow> fs
      | Inr target \<Rightarrow>
          fs\<lparr>output_file := output_file fs @
                 [snd (crawl_repo g (fst target @ ''/'' @ snd target)
                        (new_result_data (wi_id (repos ! i)) (wi_url (repos ! i))
                           (fst target) (snd target)))],
              state_file := Holds (wi_id (repos ! i))\<rparr>)"
proof (cases "resolve (wi_url (repos ! i))")
  case (Inl why)
  then show ?thesis by (simp add: item_events_eq replay_def)
next
  case (Inr target)
  let ?c = "crawl_repo g (fst target @ ''/'' @ snd target)
              (new_result_data (wi_id (repos ! i)) (wi_url (repos ! i)) (fst target) (snd target))"
  have "item_events g repos i = [Visit i] @ fst ?c @ [AppendOutput (snd ?c), WriteState (wi_id (repos ! i))]"
    using Inr by (simp add: item_events_eq Let_def)
  moreover have "replay (fst ?c) fs = fs"
    by (rule replay_quiet) (simp add: crawl_repo_quiet)
  ultimately show ?thesis
    using Inr by (simp add: replay_append) (simp add: replay_def)
qed

lemma state_after_item:
  "state_file (replay (item_events g repos i) fs) =
     (if resolvable (repos ! i) then Holds (wi_id (repos ! i)) else state_file fs)"
  by (simp add: replay_item_events resolvable_def split: sum.splits)

lemma state_after_items:
  "state_file (replay (concat (map (item_events g repos) idxs)) fs) =
     (case filter (\<lambda>i. resolvable (repos ! i)) idxs of
        [] \<Rightarrow> state_file fs
      | j # js \<Rightarrow> Holds (wi_id (repos ! last (j # js))))"
proof (induction idxs rule: rev_induct)
  case Nil
  then show ?case by (simp add: replay_def)
next
  case (snoc i idxs)
  show ?case
    using snoc
    by (simp add: replay_append state_after_item split: list.splits)
qed

text \<open>
  The run after a successful load, in closed form: the guard before the removal holds
  exactly when every visited item resolved, and then the state file is there to remove.
\<close>

lemma count_full_iff:
  "(length (filter P [a..<b]) \<ge> b - a) = (\<forall>i\<in>set [a..<b]. P i)"
proof -
  have "length (filter P [a..<b]) \<le> length [a..<b]" by (rule length_filter_le)
  moreover have "(length (filter P [a..<b]) = length [a..<b]) = (\<forall>i\<in>set [a..<b]. P i)"
    by (metis filter_id_conv length_filter_less less_irrefl)
  ultimately show ?thesis by auto
qed

lemma run_characterised:
  assumes "auth_ok env" and "input env = Lines ls"
    and "repos = List.map_filter (json_loads env) ls"
    and "start = start_index_of sf repos"
  shows "run env sf =
     (if length repos \<le> start then (Uncaught ''NameError'', [])
      else (Completed,
            concat (map (item_events (github env) repos) [start..<length repos]) @
            (if \<forall>i\<in>set [start..<length repos]. resolvable (repos ! i) then [RemoveState] else [])))"
proof (cases "length repos \<le> start")
  case True
  then show ?thesis
    using assms
    by (simp add: run_loaded completion_def main_loop_repo_id main_loop_trace)
next
  case False
  let ?g = "github env"
  let ?idxs = "[start..<length repos]"
  have guard: "(length repos \<le> start + processed_count (main_loop ?g repos start)) =
               (\<forall>i\<in>set ?idxs. resolvable (repos ! i))"
  proof -
    have "(length repos \<le> start + length (filter (\<lambda>i. resolvable (repos ! i)) ?idxs)) =
          (length repos - start \<le> length (filter (\<lambda>i. resolvable (repos ! i)) ?idxs))"
      by arith
    then show ?thesis
      using count_full_iff [of "length repos" start "\<lambda>i. resolvable (repos ! i)"]
      by (simp only: main_loop_count)
  qed
  have present: "(\<forall>i\<in>set ?idxs. resolvable (repos ! i)) \<Longrightarrow>
     state_file (replay (trace (main_loop ?g repos start)) \<lparr>output_file = [], state_file = sf\<rparr>) \<noteq> Absent"
  proof -
    assume all: "\<forall>i\<in>set ?idxs. resolvable (repos ! i)"
    then have "filter (\<lambda>i. resolvable (repos ! i)) ?idxs = ?idxs" by simp
    moreover have "?idxs \<noteq> []" using False by auto
    ultimately show ?thesis
      by (simp add: main_loop_trace state_after_items split: list.splits)
  qed
  show ?thesis
    using False assms guard present
    by (simp add: run_loaded completion_def main_loop_repo_id main_loop_trace)
qed

text \<open>
  Unfolding sets for evaluation on the sample inputs.
\<close>

lemmas sample_defs =
  demo_env_def demo_github_def flaky_github_def demo_json_loads_def widget_def no_files_def

lemmas script_defs =
  run_def load_repos_def start_index_of_def completion_def main_loop_def loop_body_def
  crawl_repo_def new_result_data_def resolve_def strip_char_def replay_def files_after_def
  files_at_def item_events_def

























subsection \<open>Resuming from the checkpoint\<close>

text \<open>
  Claim C1. Let the run get past the authentication check and load its list, and let the
  state file hold the integer \<open>v\<close> at start-up. If \<open>v\<close> is the id of some loaded item, the
  start index is the index after the first item with that id, and the run visits exactly
  the indices from there to the end of the list, in order, so no item at or before the
  matching one is visited again. If \<open>v\<close> is the id of no loaded item, the start index is 0
  and the run visits the whole list.
\<close>

theorem resume_after_checkpoint:
  assumes "auth_ok env" and "input env = Lines ls"
    and "repos = List.map_filter (json_loads env) ls"
  shows "(v \<in> wi_id ` set repos \<longrightarrow>
            (\<exists>k<length repos. wi_id (repos ! k) = v \<and> (\<forall>j<k. wi_id (repos ! j) \<noteq> v) \<and>
               start_index_of (Holds v) repos = Suc k \<and>
               visits (snd (run env (Holds v))) = [Suc k..<length repos])) \<and>
         (v \<notin> wi_id ` set repos \<longrightarrow>
            start_index_of (Holds v) repos = 0 \<and>
            visits (snd (run env (Holds v))) = [0..<length repos])"
proof (intro conjI impI)
  assume "v \<in> wi_id ` set repos"
  from resume_scan_found [OF this, of 0] obtain k where
    k: "k < length repos" "wi_id (repos ! k) = v" "\<forall>j<k. wi_id (repos ! j) \<noteq> v"
       "resume_scan v repos 0 = Suc k" by auto
  then have "start_index_of (Holds v) repos = Suc k" by (simp add: start_index_of_def)
  then show "\<exists>k<length repos. wi_id (repos ! k) = v \<and> (\<forall>j<k. wi_id (repos ! j) \<noteq> v) \<and>
               start_index_of (Holds v) repos = Suc k \<and>
               visits (snd (run env (Holds v))) = [Suc k..<length repos]"
    using k visits_run [OF assms, of "Holds v"] by auto
next
  assume "v \<notin> wi_id ` set repos"
  then show "start_index_of (Holds v) repos = 0" 
    by (simp add: start_index_of_def resume_scan_missing)
  then show "visits (snd (run env (Holds v))) = [0..<length repos]"
    using visits_run [OF assms, of "Holds v"] by simp 
qed

text \<open>
  Claim C1 at a list of three items: with the checkpoint at the second id the run visits
  the third item only, and with an id that is not in the list it visits all three.
\<close>

theorem resume_after_checkpoint_witness:
  "auth_ok (demo_env [''line 1'', ''line 2'', ''line 3'']) \<and>
   input (demo_env [''line 1'', ''line 2'', ''line 3'']) = Lines [''line 1'', ''line 2'', ''line 3''] \<and>
   2 \<in> wi_id ` set (List.map_filter demo_json_loads [''line 1'', ''line 2'', ''line 3'']) \<and>
   start_index_of (Holds 2) (List.map_filter demo_json_loads [''line 1'', ''line 2'', ''line 3'']) = 2 \<and>
   visits (snd (run (demo_env [''line 1'', ''line 2'', ''line 3'']) (Holds 2))) = [2] \<and>
   7 \<notin> wi_id ` set (List.map_filter demo_json_loads [''line 1'', ''line 2'', ''line 3'']) \<and>
   visits (snd (run (demo_env [''line 1'', ''line 2'', ''line 3'']) (Holds 7))) = [0, 1, 2]"
  using resume_after_checkpoint
          [of "demo_env [''line 1'', ''line 2'', ''line 3'']" "[''line 1'', ''line 2'', ''line 3'']"
              "List.map_filter demo_json_loads [''line 1'', ''line 2'', ''line 3'']" 2]
        resume_after_checkpoint
          [of "demo_env [''line 1'', ''line 2'', ''line 3'']" "[''line 1'', ''line 2'', ''line 3'']"
              "List.map_filter demo_json_loads [''line 1'', ''line 2'', ''line 3'']" 7]
  by (simp add: sample_defs script_defs Let_def upt_rec error_msg_def)

subsection \<open>Items whose link does not resolve\<close>

text \<open>
  Claim C2, as the specification states it, fails: both skips are \<open>continue\<close> statements,
  which leave the iteration before the state file is written. Here the first of two items
  is no GitHub link; when the second item begins the state file is still absent, and the
  id of the skipped item is never written.
\<close>

theorem skip_saves_nothing_counterexample:
  "resolve (wi_url (List.map_filter demo_json_loads [''line 2'', ''line 1''] ! 0)) =
     Inl UnsupportedReferenceKind \<and>
   take 2 (snd (run (demo_env [''line 2'', ''line 1'']) Absent)) = [Visit 0, Visit 1] \<and>
   state_file (files_at (demo_env [''line 2'', ''line 1'']) no_files 1) = Absent \<and>
   WriteState 2 \<notin> set (snd (run (demo_env [''line 2'', ''line 1'']) Absent))"
  by (simp add: sample_defs script_defs Let_def upt_rec)

text \<open>
  Claim C2, amended. An iteration over an item whose link fails resolution, for either
  reason, consists of the visit alone: there is no remote call, no record is appended, the
  state file is not written, the counter of processed items is not incremented, and both
  files are as they were before the item.
\<close>

theorem skipped_item_leaves_no_trace:
  assumes "resolve (wi_url (repos ! i)) = Inl why"
  shows "item_events g repos i = [Visit i] \<and>
         trace (loop_body g repos i s) = trace s @ [Visit i] \<and>
         processed_count (loop_body g repos i s) = processed_count s \<and>
         replay (trace (loop_body g repos i s)) fs = replay (trace s) fs"
  using assms
  by (simp add: loop_body_trace loop_body_count resolvable_def item_events_eq replay_append)
     (simp add: replay_def)

text \<open>
  Claim C2, amended, at a link without the host and at a link that is the host alone.
\<close>

theorem skipped_item_leaves_no_trace_witness:
  "resolve (wi_url ([\<lparr>wi_id = 2, wi_url = ''not-a-url''\<rparr>] ! 0)) = Inl UnsupportedReferenceKind \<and>
   resolve (wi_url ([\<lparr>wi_id = 5, wi_url = ''github.com''\<rparr>] ! 0)) = Inl MalformedReference \<and>
   item_events demo_github [\<lparr>wi_id = 2, wi_url = ''not-a-url''\<rparr>] 0 = [Visit 0] \<and>
   item_events demo_github [\<lparr>wi_id = 5, wi_url = ''github.com''\<rparr>] 0 = [Visit 0]"
  using skipped_item_leaves_no_trace
          [of "[\<lparr>wi_id = 2, wi_url = ''not-a-url''\<rparr>]" 0 UnsupportedReferenceKind demo_github]
        skipped_item_leaves_no_trace
          [of "[\<lparr>wi_id = 5, wi_url = ''github.com''\<rparr>]" 0 MalformedReference demo_github]
  by (simp add: resolve_def strip_char_def)

subsection \<open>Clearing the checkpoint\<close>

text \<open>
  Claim C3 on the scenario of the specification, a list of one good link followed by a
  string that is no link. The run finishes the sweep, yet the guard before \<open>os.remove\<close>
  compares the start index plus the number of processed items with the length of the list,
  and a skipped item is not counted: the state file is left holding the id of the first
  item. Started again on these files, the run visits the second item again and leaves the
  state file in place once more.
\<close>

theorem skipped_tail_keeps_state_file:
  "run (demo_env [''line 1'', ''line 2'']) Absent =
     (Completed,
      item_events demo_github (List.map_filter demo_json_loads [''line 1'', ''line 2'']) 0 @ [Visit 1]) \<and>
   state_file (files_after (demo_env [''line 1'', ''line 2'']) no_files) = Holds 1 \<and>
   run (demo_env [''line 1'', ''line 2'']) (Holds 1) = (Completed, [Visit 1]) \<and>
   state_file (files_after (demo_env [''line 1'', ''line 2''])
                 \<lparr>output_file = [], state_file = Holds 1\<rparr>) = Holds 1"
  by (simp add: sample_defs script_defs Let_def upt_rec)

subsection \<open>The record of a failed fetch\<close>

text \<open>
  Claim C4. For an item whose link resolves, the iteration appends exactly one record,
  the dictionary as the try block and its handlers leave it. When the first call fails,
  the record is the initial dictionary with the error message set; when a later call
  fails, the fields of the steps before it hold what those steps fetched, every other
  field is at its initial value (\<open>None\<close>, and the empty list for the contributors), and
  the error message is set. The message starts with the prefix of the \<open>GithubException\<close>
  handler exactly when the failure is a \<open>GithubException\<close>, and carries the status and
  message of the exception, or the text of any other exception.
\<close>

theorem failed_fetch_recorded:
  assumes "resolve (wi_url (repos ! i)) = Inr (own, nm)"
    and "full = own @ ''/'' @ nm"
    and "rd0 = new_result_data (wi_id (repos ! i)) (wi_url (repos ! i)) own nm"
    and "rd = snd (crawl_repo g full rd0)"
  shows "appended (item_events g repos i) = [rd] \<and>
    (\<forall>e. get_repo g full = Inl e \<longrightarrow> rd = rd0\<lparr>error := Some (error_msg e)\<rparr>) \<and>
    (\<forall>e repo. get_repo g full = Inr repo \<and> get_contributors g full = Inl e \<longrightarrow>
       rd = rd0\<lparr>stargazers_count := Some (repo_stargazers_count repo),
                forks_count := Some (repo_forks_count repo),
                open_issues_count := Some (repo_open_issues_count repo),
                created_at := repo_created_at repo,
                pushed_at := repo_pushed_at repo,
                error := Some (error_msg e)\<rparr>) \<and>
    (\<forall>e repo cs. get_repo g full = Inr repo \<and> get_contributors g full = Inr cs \<and>
         get_commits_since g full = Inl e \<longrightarrow>
       rd = rd0\<lparr>stargazers_count := Some (repo_stargazers_count repo),
                forks_count := Some (repo_forks_count repo),
                open_issues_count := Some (repo_open_issues_count repo),
                created_at := repo_created_at repo,
                pushed_at := repo_pushed_at repo,
                contributor_list := cs,
                error := Some (error_msg e)\<rparr>) \<and>
    (\<forall>e repo cs recent_count. get_repo g full = Inr repo \<and> get_contributors g full = Inr cs \<and>
         get_commits_since g full = Inr recent_count \<and> get_commits g full = Inl e \<longrightarrow>
       rd = rd0\<lparr>stargazers_count := Some (repo_stargazers_count repo),
                forks_count := Some (repo_forks_count repo),
                open_issues_count := Some (repo_open_issues_count repo),
                created_at := repo_created_at repo,
                pushed_at := repo_pushed_at repo,
                contributor_list := cs,
                recent_commits_count := Some recent_count,
                error := Some (error_msg e)\<rparr>) \<and>
    (\<forall>e. startswith (error_msg e) api_error_prefix = (\<exists>status message. e = GithubException status message)) \<and>
    (\<forall>status message. error_msg (GithubException status message) =
        api_error_prefix @ str_int status @ '' - '' @
          (case message of None \<Rightarrow> ''No message'' | Some m \<Rightarrow> m)) \<and>
    (\<forall>txt. error_msg (OtherException txt) = unknown_error_prefix @ txt)"
proof -
  have one: "appended (item_events g repos i) = [rd]"
    using assms
    by (simp add: item_events_eq Let_def appended_append appended_quiet crawl_repo_quiet)
  have fields: "\<And>e. get_repo g full = Inl e \<Longrightarrow> rd = rd0\<lparr>error := Some (error_msg e)\<rparr>"
    using assms(4) by (simp add: crawl_repo_def)
  show ?thesis
    using one fields assms(4)
    by (simp add: error_msg_class) (simp add: crawl_repo_def Let_def error_msg_def)
qed

text \<open>
  Claim C4 on the scenario of the specification: the summary is fetched, the contributor
  call times out.
\<close>

theorem failed_fetch_recorded_witness:
  "resolve (wi_url ([\<lparr>wi_id = 1, wi_url = ''https://github.com/acme/widget''\<rparr>] ! 0)) =
     Inr (''acme'', ''widget'') \<and>
   get_repo flaky_github ''acme/widget'' = Inr widget \<and>
   get_contributors flaky_github ''acme/widget'' = Inl (OtherException ''timed out'') \<and>
   appended (item_events flaky_github [\<lparr>wi_id = 1, wi_url = ''https://github.com/acme/widget''\<rparr>] 0) =
     [\<lparr> rd_id = 1, rd_url = ''https://github.com/acme/widget'', owner = ''acme'',
         repo_name = ''widget'', stargazers_count = Some 5, forks_count = Some 2,
         open_issues_count = Some 1, created_at = Some ''2020-01-01T00:00:00+00:00'',
         pushed_at = None, contributor_list = [], recent_commits_count = None,
         total_commits_count = None,
         error = Some (unknown_error_prefix @ ''timed out'') \<rparr>]"
proof -
  have r: "resolve (wi_url ([\<lparr>wi_id = 1, wi_url = ''https://github.com/acme/widget''\<rparr>] ! 0)) =
             Inr (''acme'', ''widget'')"
    by (simp add: resolve_def strip_char_def)
  have g: "get_repo flaky_github ''acme/widget'' = Inr widget"
    and c: "get_contributors flaky_github ''acme/widget'' = Inl (OtherException ''timed out'')"
    by (simp_all add: sample_defs)
  have a: "appended (item_events flaky_github
                       [\<lparr>wi_id = 1, wi_url = ''https://github.com/acme/widget''\<rparr>] 0) =
             [snd (crawl_repo flaky_github (''acme'' @ ''/'' @ ''widget'')
                     (new_result_data
                        (wi_id ([\<lparr>wi_id = 1, wi_url = ''https://github.com/acme/widget''\<rparr>] ! 0))
                        (wi_url ([\<lparr>wi_id = 1, wi_url = ''https://github.com/acme/widget''\<rparr>] ! 0))
                        ''acme'' ''widget''))]"
    using failed_fetch_recorded [OF r refl refl refl, of flaky_github] by (rule conjunct1)
  have v: "snd (crawl_repo flaky_github (''acme'' @ ''/'' @ ''widget'')
                  (new_result_data
                     (wi_id ([\<lparr>wi_id = 1, wi_url = ''https://github.com/acme/widget''\<rparr>] ! 0))
                     (wi_url ([\<lparr>wi_id = 1, wi_url = ''https://github.com/acme/widget''\<rparr>] ! 0))
                     ''acme'' ''widget'')) =
       \<lparr> rd_id = 1, rd_url = ''https://github.com/acme/widget'', owner = ''acme'',
         repo_name = ''widget'', stargazers_count = Some 5, forks_count = Some 2,
         open_issues_count = Some 1, created_at = Some ''2020-01-01T00:00:00+00:00'',
         pushed_at = None, contributor_list = [], recent_commits_count = None,
         total_commits_count = None,
         error = Some (unknown_error_prefix @ ''timed out'') \<rparr>"
    by (simp add: sample_defs new_result_data_def crawl_repo_def error_msg_def)
  show ?thesis using r g c a v by simp
qed

subsection \<open>Append before save\<close>




subsection \<open>The order of the remote calls\<close>

text \<open>
  Claim C7. The events of the try block are an initial part of one fixed sequence: the
  repository summary, the contributor list, the commits of the last thirty days and all
  commits, each call followed by a pause. The part ends with the first call that fails,
  so no later call is made, and it is the whole sequence when no call fails.
\<close>

theorem fetch_fixed_order:
  "fst (crawl_repo g full rd) =
     take (if isl (get_repo g full) then 1
           else if isl (get_contributors g full) then 3
           else if isl (get_commits_since g full) then 5
           else if isl (get_commits g full) then 7
           else 8)
       (fetch_sequence full)"
  by (simp add: crawl_repo_def fetch_sequence_def Let_def split: sum.splits)

text \<open>
  Claim C7 where the second call fails, and where none does.
\<close>

theorem fetch_fixed_order_witness:
  "fst (crawl_repo flaky_github ''acme/widget'' (new_result_data 1 ''u'' ''acme'' ''widget'')) =
     [RemoteCall GetRepo ''acme/widget'', Sleep, RemoteCall GetContributors ''acme/widget''] \<and>
   fst (crawl_repo demo_github ''acme/widget'' (new_result_data 1 ''u'' ''acme'' ''widget'')) =
     fetch_sequence ''acme/widget''"
  using fetch_fixed_order [of flaky_github "''acme/widget''" "new_result_data 1 ''u'' ''acme'' ''widget''"]
        fetch_fixed_order [of demo_github "''acme/widget''" "new_result_data 1 ''u'' ''acme'' ''widget''"]
  by (simp add: sample_defs fetch_sequence_def)

subsection \<open>Loading the list\<close>

text \<open>
  Claim C8. When the input file can be read, loading succeeds whatever its lines are: the
  list holds the parsed value of every line that parses, in the order of the file, and a
  warning is given for every other line. Loading stops the process exactly when the file
  is missing or cannot be read, and then nothing has been visited.
\<close>

theorem load_skips_unparseable_lines:
  "(input env = Lines ls \<longrightarrow>
      load_repos (json_loads env) (input env) =
        Inr (List.map_filter (json_loads env) ls, filter (\<lambda>l. json_loads env l = None) ls)) \<and>
   ((\<exists>stop. load_repos (json_loads env) (input env) = Inl stop) =
      (input env = Missing \<or> input env = Unreadable)) \<and>
   (\<forall>stop. load_repos (json_loads env) (input env) = Inl stop \<longrightarrow>
      snd (run env sf) = [] \<and> (auth_ok env \<longrightarrow> fst (run env sf) = stop))"
  by (cases "input env") (simp_all add: load_repos_def load_lines_eq run_def)

text \<open>
  Claim C8 at a file whose second line does not parse, and at a missing file.
\<close>

theorem load_skips_unparseable_lines_witness:
  "input (demo_env [''line 1'', ''garbage'', ''line 3'']) = Lines [''line 1'', ''garbage'', ''line 3''] \<and>
   load_repos demo_json_loads (Lines [''line 1'', ''garbage'', ''line 3'']) =
     Inr ([\<lparr>wi_id = 1, wi_url = ''https://github.com/acme/widget''\<rparr>,
           \<lparr>wi_id = 3, wi_url = ''https://github.com/acme/gadget''\<rparr>], [''garbage'']) \<and>
   load_repos demo_json_loads Missing = Inl SysExit \<and>
   run ((demo_env [])\<lparr>input := Missing\<rparr>) (Holds 1) = (SysExit, [])"
  using load_skips_unparseable_lines
          [of "demo_env [''line 1'', ''garbage'', ''line 3'']" "[''line 1'', ''garbage'', ''line 3'']" Absent]
        load_skips_unparseable_lines [of "(demo_env [])\<lparr>input := Missing\<rparr>" "[]" "Holds 1"]
  by (simp add: sample_defs load_repos_def run_def)

subsection \<open>The completion report after an empty sweep\<close>

text \<open>
  Claim C9. After a successful load, the process dies of a \<open>NameError\<close> exactly when
  the start index is not below the length of the list, which includes the empty list. In
  that case no item is visited, the exit status is 1, and the files are as they were at
  start-up: the state file is not removed.
\<close>

theorem empty_sweep_raises_name_error:
  assumes "auth_ok env" and "input env = Lines ls"
    and "repos = List.map_filter (json_loads env) ls"
  shows "((fst (run env sf) = Uncaught ''NameError'') = (length repos \<le> start_index_of sf repos)) \<and>
         (repos = [] \<or> length repos \<le> start_index_of sf repos \<longrightarrow>
            run env sf = (Uncaught ''NameError'', []) \<and>
            exit_status (fst (run env sf)) = 1 \<and>
            (state_file fs = sf \<longrightarrow> files_after env fs = fs))"
  using run_characterised [OF assms refl, of sf]
  by (auto simp add: files_after_def replay_def)

text \<open>
  Claim C9 where the checkpoint holds the id of the last item, and at an empty list.
\<close>

theorem empty_sweep_raises_name_error_witness:
  "auth_ok (demo_env [''line 1'']) \<and> input (demo_env [''line 1'']) = Lines [''line 1''] \<and>
   length (List.map_filter demo_json_loads [''line 1'']) \<le>
     start_index_of (Holds 1) (List.map_filter demo_json_loads [''line 1'']) \<and>
   run (demo_env [''line 1'']) (Holds 1) = (Uncaught ''NameError'', []) \<and>
   files_after (demo_env [''line 1'']) \<lparr>output_file = [], state_file = Holds 1\<rparr> =
     \<lparr>output_file = [], state_file = Holds 1\<rparr> \<and>
   List.map_filter demo_json_loads [] = [] \<and>
   run (demo_env []) Absent = (Uncaught ''NameError'', [])"
  using empty_sweep_raises_name_error
          [of "demo_env [''line 1'']" "[''line 1'']" "List.map_filter demo_json_loads [''line 1'']"
              "Holds 1" "\<lparr>output_file = [], state_file = Holds 1\<rparr>"]
        empty_sweep_raises_name_error
          [of "demo_env []" "[]" "[]" Absent no_files]
  by (simp add: sample_defs start_index_of_def)

subsection \<open>The exit status\<close>

text \<open>
  Claim C10, as the specification states it, fails: both fatal exits are \<open>sys.exit()\<close>
  without an argument, which ends the process with status 0.
\<close>

theorem fatal_exit_status_zero_counterexample:
  "run ((demo_env [''line 1''])\<lparr>auth_ok := False\<rparr>) Absent = (SysExit, []) \<and>
   exit_status (fst (run ((demo_env [''line 1''])\<lparr>auth_ok := False\<rparr>) Absent)) = 0 \<and>
   run ((demo_env [])\<lparr>input := Missing\<rparr>) Absent = (SysExit, []) \<and>
   exit_status (fst (run ((demo_env [])\<lparr>input := Missing\<rparr>) Absent)) = 0"
  by (simp add: sample_defs run_def load_repos_def)

text \<open>
  Claim C10, amended. A failed authentication check and a missing input file stop the
  process before any item is visited, through \<open>sys.exit()\<close>, with exit status 0. An
  input file that is there but cannot be read stops it before any item is visited with
  an uncaught exception, status 1. A run that loads its list and has at least one item to
  visit runs off the end of the script, with exit status 0.
\<close>

theorem exit_status_of_run:
  "(\<not> auth_ok env \<longrightarrow> run env sf = (SysExit, []) \<and> exit_status (fst (run env sf)) = 0) \<and>
   (auth_ok env \<and> input env = Missing \<longrightarrow>
      run env sf = (SysExit, []) \<and> exit_status (fst (run env sf)) = 0) \<and>
   (auth_ok env \<and> input env = Unreadable \<longrightarrow>
      run env sf = (Uncaught ''OSError'', []) \<and> exit_status (fst (run env sf)) = 1) \<and>
   (auth_ok env \<and> input env = Lines ls \<and>
    start_index_of sf (List.map_filter (json_loads env) ls) <
      length (List.map_filter (json_loads env) ls) \<longrightarrow>
      fst (run env sf) = Completed \<and> exit_status (fst (run env sf)) = 0)"
proof (intro conjI impI)
  assume a: "auth_ok env \<and> input env = Lines ls \<and>
    start_index_of sf (List.map_filter (json_loads env) ls) <
      length (List.map_filter (json_loads env) ls)"
  then have "fst (run env sf) = Completed"
    using run_characterised [of env ls "List.map_filter (json_loads env) ls" _ sf] by simp
  then show "fst (run env sf) = Completed" and "exit_status (fst (run env sf)) = 0" by simp_all
qed (simp_all add: run_def load_repos_def)

text \<open>
  Claim C10, amended, at a failed authentication, a missing file, an unreadable file and
  a sweep of one item.
\<close>

theorem exit_status_of_run_witness:
  "\<not> auth_ok ((demo_env [''line 1''])\<lparr>auth_ok := False\<rparr>) \<and>
   exit_status (fst (run ((demo_env [''line 1''])\<lparr>auth_ok := False\<rparr>) Absent)) = 0 \<and>
   input ((demo_env [])\<lparr>input := Missing\<rparr>) = Missing \<and>
   exit_status (fst (run ((demo_env [])\<lparr>input := Missing\<rparr>) Absent)) = 0 \<and>
   exit_status (fst (run ((demo_env [])\<lparr>input := Unreadable\<rparr>) Absent)) = 1 \<and>
   start_index_of Absent (List.map_filter demo_json_loads [''line 1'']) <
     length (List.map_filter demo_json_loads [''line 1'']) \<and>
   fst (run (demo_env [''line 1'']) Absent) = Completed"
  using exit_status_of_run [of "(demo_env [''line 1''])\<lparr>auth_ok := False\<rparr>" Absent]
        exit_status_of_run [of "(demo_env [])\<lparr>input := Missing\<rparr>" Absent]
        exit_status_of_run [of "(demo_env [])\<lparr>input := Unreadable\<rparr>" Absent]
        exit_status_of_run [of "demo_env [''line 1'']" Absent "[''line 1'']"]
  by (simp add: sample_defs start_index_of_def)

end
